theory Spec2Isabelle
  imports Main "HOL-Library.Word"
begin

section \<open>The metrics-server component handler of rainbond-operator\<close>

text \<open>
  The development embeds the handler \<^verbatim>\<open>metricsServer\<close> of package \<^verbatim>\<open>handler\<close>
  (second half of \<^verbatim>\<open>rainbondcluster_types.go\<close>): its constructor, the lifecycle methods
  \<^verbatim>\<open>Before\<close>, \<^verbatim>\<open>Resources\<close>, \<^verbatim>\<open>After\<close>, \<^verbatim>\<open>ListPods\<close> and the builders they call.

  Go values are modelled as follows.
  \<^item> A struct is a record holding the fields the handler reads or writes; every other
    field of the Kubernetes types keeps its zero value in the source and is left out.
  \<^item> A Go map is a reference. The handler's label map is shared between the handler and
    the objects it builds and is written in place, so label maps live in an explicit
    store: a \<open>mapref\<close> is either the nil map or an address, and a \<open>heap\<close> gives the
    contents at every address.
  \<^item> A pointer to a value that nobody writes is an \<open>option\<close> (\<open>None\<close> is nil).
  \<^item> \<^verbatim>\<open>int32\<close> and \<^verbatim>\<open>int64\<close> are \<open>32 word\<close> and \<open>64 word\<close>.
  \<^item> A run-time panic is the left summand of the result.
\<close>

subsection \<open>Label maps and the store\<close>

type_synonym labelset = "string \<rightharpoonup> string"

datatype mapref = NilMap | MapAt nat

type_synonym heap = "nat \<Rightarrow> labelset"

datatype panic = NilPointerDereference | AssignmentToEntryInNilMap

text \<open>Reading a nil map gives no entry for any key.\<close>

fun deref :: "heap \<Rightarrow> mapref \<Rightarrow> labelset" where
  "deref h NilMap = Map.empty"
| "deref h (MapAt a) = h a"

text \<open>The Go statement \<^verbatim>\<open>r[k] = v\<close>: it panics on a nil map and writes in place otherwise.\<close>

fun map_assign :: "mapref \<Rightarrow> string \<Rightarrow> string \<Rightarrow> heap \<Rightarrow> panic + heap" where
  "map_assign NilMap k v h = Inl AssignmentToEntryInNilMap"
| "map_assign (MapAt a) k v h = Inr (h(a := (h a)(k \<mapsto> v)))"

subsection \<open>Data model\<close>

record ServiceReference =
  sr_Namespace :: string
  sr_Name :: string

record APIService =
  as_Name :: string
  as_ResourceVersion :: string
  as_Service :: "ServiceReference option"
  as_Group :: string
  as_Version :: string
  as_InsecureSkipTLSVerify :: bool
  as_GroupPriorityMinimum :: "32 word"
  as_VersionPriority :: "32 word"

text \<open>
  \<^verbatim>\<open>RbdComponent\<close> is declared outside the file. The handler reads its namespace,
  \<^verbatim>\<open>Spec.Replicas\<close>, \<^verbatim>\<open>Spec.Image\<close> and the result of its method \<^verbatim>\<open>ImagePullPolicy()\<close>;
  the method's result is carried as the field \<open>cpt_ImagePullPolicy\<close>.
\<close>

record RbdComponent =
  cpt_Namespace :: string
  cpt_Replicas :: "32 word option"
  cpt_Image :: string
  cpt_ImagePullPolicy :: string

text \<open>Of \<^verbatim>\<open>RainbondCluster\<close> the handler reads the namespace only.\<close>

record RainbondCluster =
  cluster_Namespace :: string

record ContainerPort =
  cp_Name :: string
  cp_ContainerPort :: "32 word"

record SecurityContext =
  sc_ReadOnlyRootFilesystem :: "bool option"
  sc_RunAsNonRoot :: "bool option"
  sc_RunAsUser :: "64 word option"

record VolumeMount =
  vm_Name :: string
  vm_MountPath :: string

record Container =
  c_Name :: string
  c_Image :: string
  c_ImagePullPolicy :: string
  c_Args :: "string list"
  c_Ports :: "ContainerPort list"
  c_SecurityContext :: "SecurityContext option"
  c_VolumeMounts :: "VolumeMount list"

datatype VolumeSource = EmptyDir

record Volume =
  v_Name :: string
  v_VolumeSource :: VolumeSource

record PodSpec =
  ps_ServiceAccountName :: string
  ps_TerminationGracePeriodSeconds :: "64 word option"
  ps_NodeSelector :: labelset
  ps_Containers :: "Container list"
  ps_Volumes :: "Volume list"

text \<open>
  The objects a handler builds hold label maps by reference (\<open>'l = mapref\<close>); the same
  objects with every reference replaced by the map's contents (\<open>'l = labelset\<close>) are
  what the control plane stores and what a structural comparison looks at.
\<close>

record 'l LabelSelector =
  ls_MatchLabels :: 'l

record 'l Deployment =
  d_Name :: string
  d_Namespace :: string
  d_Labels :: 'l
  d_Replicas :: "32 word option"
  d_Selector :: "'l LabelSelector option"
  d_Template_Name :: string
  d_Template_Labels :: 'l
  d_Template_Spec :: PodSpec

record ServicePort =
  sp_Port :: "32 word"
  sp_TargetPort_IntVal :: "32 word"

record 'l Service =
  s_Name :: string
  s_Namespace :: string
  s_Labels :: 'l
  s_Ports :: "ServicePort list"
  s_Selector :: 'l

text \<open>The elements of the \<^verbatim>\<open>[]interface{}\<close> that \<^verbatim>\<open>Resources\<close> returns.\<close>

datatype 'l object = DeploymentObj "'l Deployment" | ServiceObj "'l Service"

record Pod =
  pod_Namespace :: string
  pod_Name :: string

text \<open>The receiver. \<^verbatim>\<open>ctx\<close> is passed through untouched and \<^verbatim>\<open>db\<close> is never read; the
  client is a parameter of the methods that call it.\<close>

record metricsServer =
  labels :: mapref
  component :: RbdComponent
  cluster :: RainbondCluster
  apiservice :: "APIService option"

definition MetricsServerName :: string where
  "MetricsServerName = ''metrics-server''"

definition metricsGroupAPI :: string where
  "metricsGroupAPI = ''v1beta1.metrics.k8s.io''"

subsection \<open>Reading built objects through the store\<close>

definition resolve_Deployment :: "heap \<Rightarrow> mapref Deployment \<Rightarrow> labelset Deployment" where
  "resolve_Deployment h d =
     \<lparr> d_Name = d_Name d,
       d_Namespace = d_Namespace d,
       d_Labels = deref h (d_Labels d),
       d_Replicas = d_Replicas d,
       d_Selector = map_option (\<lambda>s. \<lparr> ls_MatchLabels = deref h (ls_MatchLabels s) \<rparr>) (d_Selector d),
       d_Template_Name = d_Template_Name d,
       d_Template_Labels = deref h (d_Template_Labels d),
       d_Template_Spec = d_Template_Spec d \<rparr>"

definition resolve_Service :: "heap \<Rightarrow> mapref Service \<Rightarrow> labelset Service" where
  "resolve_Service h s =
     \<lparr> s_Name = s_Name s,
       s_Namespace = s_Namespace s,
       s_Labels = deref h (s_Labels s),
       s_Ports = s_Ports s,
       s_Selector = deref h (s_Selector s) \<rparr>"

fun resolve_object :: "heap \<Rightarrow> mapref object \<Rightarrow> labelset object" where
  "resolve_object h (DeploymentObj d) = DeploymentObj (resolve_Deployment h d)"
| "resolve_object h (ServiceObj s) = ServiceObj (resolve_Service h s)"

subsection \<open>The constructor and the adoption decision\<close>

text \<open>
  \<^verbatim>\<open>LabelsForRainbondComponent\<close> is declared outside the file; the map it returns is the
  parameter \<open>lbls\<close>. The field \<^verbatim>\<open>apiservice\<close> is not set by the constructor and so is nil.
\<close>

definition NewMetricsServer :: "mapref \<Rightarrow> RbdComponent \<Rightarrow> RainbondCluster \<Rightarrow> metricsServer" where
  "NewMetricsServer lbls cpt cl =
     \<lparr> labels = lbls, component = cpt, cluster = cl, apiservice = None \<rparr>"

text \<open>\<^verbatim>\<open>Spec.Service\<close> is a pointer: reading a field through it panics when it is nil.\<close>

definition apiServiceCreatedByRainbond :: "metricsServer \<Rightarrow> panic + bool" where
  "apiServiceCreatedByRainbond m =
     (case apiservice m of
        None \<Rightarrow> Inr True
      | Some a \<Rightarrow>
          (case as_Service a of
             None \<Rightarrow> Inl NilPointerDereference
           | Some r \<Rightarrow>
               Inr (sr_Namespace r = cpt_Namespace (component m) \<and> sr_Name r = MetricsServerName)))"

subsection \<open>The builders\<close>

definition deployment :: "metricsServer \<Rightarrow> mapref Deployment" where
  "deployment m =
     \<lparr> d_Name = MetricsServerName,
       d_Namespace = cpt_Namespace (component m),
       d_Labels = labels m,
       d_Replicas = cpt_Replicas (component m),
       d_Selector = Some \<lparr> ls_MatchLabels = labels m \<rparr>,
       d_Template_Name = MetricsServerName,
       d_Template_Labels = labels m,
       d_Template_Spec =
         \<lparr> ps_ServiceAccountName = ''rainbond-operator'',
           ps_TerminationGracePeriodSeconds = Some 0,
           ps_NodeSelector =
             [''beta.kubernetes.io/os'' \<mapsto> ''linux'', ''kubernetes.io/arch'' \<mapsto> ''amd64''],
           ps_Containers =
             [\<lparr> c_Name = MetricsServerName,
                c_Image = cpt_Image (component m),
                c_ImagePullPolicy = cpt_ImagePullPolicy (component m),
                c_Args =
                  [''--cert-dir=/tmp'',
                   ''--secure-port=4443'',
                   ''--kubelet-insecure-tls'',
                   ''--kubelet-preferred-address-types=InternalIP''],
                c_Ports = [\<lparr> cp_Name = ''main-port'', cp_ContainerPort = 4443 \<rparr>],
                c_SecurityContext =
                  Some \<lparr> sc_ReadOnlyRootFilesystem = Some True,
                         sc_RunAsNonRoot = Some True,
                         sc_RunAsUser = Some 1000 \<rparr>,
                c_VolumeMounts = [\<lparr> vm_Name = ''tmp-dir'', vm_MountPath = ''/tmp'' \<rparr>] \<rparr>],
           ps_Volumes = [\<lparr> v_Name = ''tmp-dir'', v_VolumeSource = EmptyDir \<rparr>] \<rparr> \<rparr>"

text \<open>
  \<^verbatim>\<open>labels := m.labels\<close> copies the reference, not the map: the two assignments write
  the handler's own map, and the first of them panics when that map is nil.
\<close>

definition serviceForMetricsServer :: "metricsServer \<Rightarrow> heap \<Rightarrow> panic + (mapref Service \<times> heap)" where
  "serviceForMetricsServer m h =
     (let lbls = labels m in
      case map_assign lbls ''kubernetes.io/name'' ''Metrics-server'' h of
        Inl p \<Rightarrow> Inl p
      | Inr h1 \<Rightarrow>
          (case map_assign lbls ''kubernetes.io/cluster-service'' ''true'' h1 of
             Inl p \<Rightarrow> Inl p
           | Inr h2 \<Rightarrow>
               Inr (\<lparr> s_Name = MetricsServerName,
                      s_Namespace = cpt_Namespace (component m),
                      s_Labels = lbls,
                      s_Ports = [\<lparr> sp_Port = 443, sp_TargetPort_IntVal = 4443 \<rparr>],
                      s_Selector = labels m \<rparr>, h2)))"

definition apiserviceForMetricsServer :: "metricsServer \<Rightarrow> APIService" where
  "apiserviceForMetricsServer m =
     \<lparr> as_Name = metricsGroupAPI,
       as_ResourceVersion = '''',
       as_Service = Some \<lparr> sr_Namespace = cluster_Namespace (cluster m), sr_Name = MetricsServerName \<rparr>,
       as_Group = ''metrics.k8s.io'',
       as_Version = ''v1beta1'',
       as_InsecureSkipTLSVerify = True,
       as_GroupPriorityMinimum = 100,
       as_VersionPriority = 30 \<rparr>"

subsection \<open>Resources\<close>

text \<open>The slice literal evaluates its elements from left to right: the Deployment is
  built before the Service helper writes the label map. A nil slice is the empty list.\<close>

definition Resources :: "metricsServer \<Rightarrow> heap \<Rightarrow> panic + (mapref object list \<times> heap)" where
  "Resources m h =
     (case apiServiceCreatedByRainbond m of
        Inl p \<Rightarrow> Inl p
      | Inr owned \<Rightarrow>
          if \<not> owned then Inr ([], h)
          else
            (let d = deployment m in
             case serviceForMetricsServer m h of
               Inl p \<Rightarrow> Inl p
             | Inr (s, h') \<Rightarrow> Inr ([DeploymentObj d, ServiceObj s], h')))"

subsection \<open>The control-plane client\<close>

text \<open>
  \<^verbatim>\<open>client.Client\<close> belongs to controller-runtime and \<^verbatim>\<open>listPods\<close> is declared outside
  the file, so the client is a parameter: a record of the operations the handler calls,
  each a function of an arbitrary control-plane state \<open>'w\<close> that returns its answer and
  the next state. \<^verbatim>\<open>listPods\<close> receives the contents of the label map at the moment of
  the call. Beside the control-plane state the model keeps the list of calls issued so
  far, so that what a method asks of the control plane can be stated.
\<close>

datatype k8s_error = NotFound | AlreadyExists | Conflict | Unavailable

fun IsNotFound :: "k8s_error \<Rightarrow> bool" where
  "IsNotFound NotFound = True"
| "IsNotFound _ = False"

record 'w Client =
  client_Get_APIService :: "string \<times> string \<Rightarrow> 'w \<Rightarrow> (k8s_error + APIService) \<times> 'w"
  client_Get_Service :: "string \<times> string \<Rightarrow> 'w \<Rightarrow> (k8s_error + labelset Service) \<times> 'w"
  client_Create :: "APIService \<Rightarrow> 'w \<Rightarrow> k8s_error option \<times> 'w"
  client_Update :: "APIService \<Rightarrow> 'w \<Rightarrow> k8s_error option \<times> 'w"
  client_listPods :: "string \<Rightarrow> labelset \<Rightarrow> 'w \<Rightarrow> (k8s_error + Pod list) \<times> 'w"

datatype call =
    CallGetAPIService "string \<times> string"
  | CallGetService "string \<times> string"
  | CallCreate APIService
  | CallUpdate APIService
  | CallListPods string labelset

type_synonym 'w plane = "'w \<times> call list"

definition Get_APIService ::
  "'w Client \<Rightarrow> string \<times> string \<Rightarrow> 'w plane \<Rightarrow> (k8s_error + APIService) \<times> 'w plane" where
  "Get_APIService c key s =
     (case client_Get_APIService c key (fst s) of
        (r, w') \<Rightarrow> (r, (w', snd s @ [CallGetAPIService key])))"

definition Get_Service ::
  "'w Client \<Rightarrow> string \<times> string \<Rightarrow> 'w plane \<Rightarrow> (k8s_error + labelset Service) \<times> 'w plane" where
  "Get_Service c key s =
     (case client_Get_Service c key (fst s) of
        (r, w') \<Rightarrow> (r, (w', snd s @ [CallGetService key])))"

definition Create :: "'w Client \<Rightarrow> APIService \<Rightarrow> 'w plane \<Rightarrow> k8s_error option \<times> 'w plane" where
  "Create c obj s =
     (case client_Create c obj (fst s) of
        (r, w') \<Rightarrow> (r, (w', snd s @ [CallCreate obj])))"

definition Update :: "'w Client \<Rightarrow> APIService \<Rightarrow> 'w plane \<Rightarrow> k8s_error option \<times> 'w plane" where
  "Update c obj s =
     (case client_Update c obj (fst s) of
        (r, w') \<Rightarrow> (r, (w', snd s @ [CallUpdate obj])))"

definition listPods ::
  "'w Client \<Rightarrow> string \<Rightarrow> labelset \<Rightarrow> 'w plane \<Rightarrow> (k8s_error + Pod list) \<times> 'w plane" where
  "listPods c ns sel s =
     (case client_listPods c ns sel (fst s) of
        (r, w') \<Rightarrow> (r, (w', snd s @ [CallListPods ns sel])))"

subsection \<open>Before, After, ListPods\<close>

text \<open>The errors the methods return; each constructor keeps the arguments of the
  \<^verbatim>\<open>fmt.Errorf\<close> that builds the message. \<open>ListPodsFailed\<close> is an error of \<^verbatim>\<open>listPods\<close>,
  returned as it is.\<close>

datatype go_error =
    GetAPIServiceFailed string string k8s_error
  | CreateFailed k8s_error
  | UpdateFailed k8s_error
  | GetSvcFailed k8s_error
  | ListPodsFailed k8s_error

text \<open>The key of the Get has an empty namespace: the APIService is cluster-scoped.
  On NotFound the field \<^verbatim>\<open>apiservice\<close> is left as it was.\<close>

definition Before ::
  "'w Client \<Rightarrow> metricsServer \<Rightarrow> 'w plane \<Rightarrow> go_error option \<times> metricsServer \<times> 'w plane" where
  "Before c m s =
     (case Get_APIService c ('''', metricsGroupAPI) s of
        (Inl err, s') \<Rightarrow>
          if \<not> IsNotFound err
          then (Some (GetAPIServiceFailed MetricsServerName (cluster_Namespace (cluster m)) err), m, s')
          else (None, m, s')
      | (Inr a, s') \<Rightarrow> (None, m\<lparr>apiservice := Some a\<rparr>, s'))"

text \<open>The \<^verbatim>\<open>log.Info\<close> before the update writes to the package logger only and is left out.\<close>

definition After ::
  "'w Client \<Rightarrow> metricsServer \<Rightarrow> 'w plane \<Rightarrow> panic + (go_error option \<times> 'w plane)" where
  "After c m s =
     (case apiServiceCreatedByRainbond m of
        Inl p \<Rightarrow> Inl p
      | Inr owned \<Rightarrow>
          if \<not> owned then Inr (None, s)
          else
            (let newAPIService = apiserviceForMetricsServer m in
             case Get_APIService c ('''', metricsGroupAPI) s of
               (Inl err, s1) \<Rightarrow>
                 if \<not> IsNotFound err
                 then Inr (Some (GetAPIServiceFailed MetricsServerName (cluster_Namespace (cluster m)) err), s1)
                 else
                   (case Create c newAPIService s1 of
                      (Some err', s2) \<Rightarrow> Inr (Some (CreateFailed err'), s2)
                    | (None, s2) \<Rightarrow> Inr (None, s2))
             | (Inr cur, s1) \<Rightarrow>
                 (let newAPIService' = newAPIService\<lparr>as_ResourceVersion := as_ResourceVersion cur\<rparr> in
                  case Update c newAPIService' s1 of
                    (Some err', s2) \<Rightarrow> Inr (Some (UpdateFailed err'), s2)
                  | (None, s2) \<Rightarrow> Inr (None, s2))))"

text \<open>When the singleton is foreign, \<^verbatim>\<open>apiServiceCreatedByRainbond\<close> has already read
  through \<^verbatim>\<open>m.apiservice.Spec.Service\<close>, so the two pointers are not nil where
  \<^verbatim>\<open>ListPods\<close> reads them again; the model keeps the checks all the same.\<close>

definition ListPods ::
  "'w Client \<Rightarrow> metricsServer \<Rightarrow> heap \<Rightarrow> 'w plane \<Rightarrow> panic + ((go_error + Pod list) \<times> 'w plane)" where
  "ListPods c m h s =
     (case apiServiceCreatedByRainbond m of
        Inl p \<Rightarrow> Inl p
      | Inr owned \<Rightarrow>
          if \<not> owned then
            (case apiservice m of
               None \<Rightarrow> Inl NilPointerDereference
             | Some a \<Rightarrow>
                 (case as_Service a of
                    None \<Rightarrow> Inl NilPointerDereference
                  | Some svcRef \<Rightarrow>
                      (case Get_Service c (sr_Namespace svcRef, sr_Name svcRef) s of
                         (Inl err, s1) \<Rightarrow> Inr (Inl (GetSvcFailed err), s1)
                       | (Inr svc, s1) \<Rightarrow>
                           (case listPods c (cpt_Namespace (component m)) (s_Selector svc) s1 of
                              (Inl err, s2) \<Rightarrow> Inr (Inl (ListPodsFailed err), s2)
                            | (Inr pods, s2) \<Rightarrow> Inr (Inr pods, s2)))))
          else
            (case listPods c (cpt_Namespace (component m)) (deref h (labels m)) s of
               (Inl err, s2) \<Rightarrow> Inr (Inl (ListPodsFailed err), s2)
             | (Inr pods, s2) \<Rightarrow> Inr (Inr pods, s2)))"

subsection \<open>An in-memory control plane\<close>

text \<open>
  A concrete client for running the handler on examples, following the object-store
  contract the handler is written against: a Get answers NotFound for a missing
  object; a create stores the object under its name with a first revision and answers
  AlreadyExists when the name is taken; an update answers NotFound for a missing object
  and Conflict when the revision sent is not the stored one, and otherwise stores the
  object with the next revision; \<open>mem_fault\<close>, when set, makes every call fail with that
  error.
\<close>

record mem =
  mem_apiservices :: "string \<rightharpoonup> APIService"
  mem_services :: "string \<times> string \<rightharpoonup> labelset Service"
  mem_pods :: "(Pod \<times> labelset) list"
  mem_fault :: "k8s_error option"

definition selects :: "labelset \<Rightarrow> labelset \<Rightarrow> bool" where
  "selects sel lbl = (sel \<subseteq>\<^sub>m lbl)"

definition mem_client :: "mem Client" where
  "mem_client =
     \<lparr> client_Get_APIService = (\<lambda>key w.
         (case mem_fault w of
            Some e \<Rightarrow> Inl e
          | None \<Rightarrow> (case mem_apiservices w (snd key) of None \<Rightarrow> Inl NotFound | Some a \<Rightarrow> Inr a), w)),
       client_Get_Service = (\<lambda>key w.
         (case mem_fault w of
            Some e \<Rightarrow> Inl e
          | None \<Rightarrow> (case mem_services w key of None \<Rightarrow> Inl NotFound | Some v \<Rightarrow> Inr v), w)),
       client_Create = (\<lambda>obj w.
         (case mem_fault w of
            Some e \<Rightarrow> (Some e, w)
          | None \<Rightarrow>
              (case mem_apiservices w (as_Name obj) of
                 Some _ \<Rightarrow> (Some AlreadyExists, w)
               | None \<Rightarrow>
                   (None, w\<lparr>mem_apiservices :=
                       (mem_apiservices w)(as_Name obj \<mapsto> obj\<lparr>as_ResourceVersion := ''1''\<rparr>)\<rparr>)))),
       client_Update = (\<lambda>obj w.
         (case mem_fault w of
            Some e \<Rightarrow> (Some e, w)
          | None \<Rightarrow>
              (case mem_apiservices w (as_Name obj) of
                 None \<Rightarrow> (Some NotFound, w)
               | Some cur \<Rightarrow>
                   if as_ResourceVersion obj \<noteq> as_ResourceVersion cur then (Some Conflict, w)
                   else
                     (None, w\<lparr>mem_apiservices :=
                         (mem_apiservices w)(as_Name obj \<mapsto>
                            obj\<lparr>as_ResourceVersion := as_ResourceVersion cur @ ''1''\<rparr>)\<rparr>)))),
       client_listPods = (\<lambda>ns sel w.
         (case mem_fault w of
            Some e \<Rightarrow> Inl e
          | None \<Rightarrow>
              Inr (map fst (filter (\<lambda>(p, lbl). pod_Namespace p = ns \<and> selects sel lbl) (mem_pods w))), w)) \<rparr>"

subsection \<open>Predicates and example inputs used in the statements\<close>

text \<open>The two entries the Service helper adds to the label map.\<close>

definition has_service_keys :: "labelset \<Rightarrow> bool" where
  "has_service_keys l =
     (l ''kubernetes.io/name'' = Some ''Metrics-server'' \<and>
      l ''kubernetes.io/cluster-service'' = Some ''true'')"

text \<open>A component and a cluster in the namespace \<open>platform\<close>, a label map with one entry
  at address 0, and the handler the constructor makes of them.\<close>

definition ex_component :: RbdComponent where
  "ex_component =
     \<lparr> cpt_Namespace = ''platform'',
       cpt_Replicas = Some 1,
       cpt_Image = ''goodrain.me/metrics-server:v0.3.6'',
       cpt_ImagePullPolicy = ''IfNotPresent'' \<rparr>"

definition ex_cluster :: RainbondCluster where
  "ex_cluster = \<lparr> cluster_Namespace = ''platform'' \<rparr>"

definition ex_heap :: heap where
  "ex_heap = (\<lambda>_. Map.empty)(0 := [''name'' \<mapsto> ''metrics-server''])"

definition ex_handler :: metricsServer where
  "ex_handler = NewMetricsServer (MapAt 0) ex_component ex_cluster"

text \<open>The same component under a cluster resource that lives in another namespace.\<close>

definition ex_far_cluster :: RainbondCluster where
  "ex_far_cluster = \<lparr> cluster_Namespace = ''installer'' \<rparr>"

definition ex_far_handler :: metricsServer where
  "ex_far_handler = NewMetricsServer (MapAt 0) ex_component ex_far_cluster"

text \<open>An empty control plane, and one where somebody else has registered the metrics
  API with the service \<open>other/other-svc\<close> behind it.\<close>

definition ex_empty_plane :: mem where
  "ex_empty_plane =
     \<lparr> mem_apiservices = Map.empty, mem_services = Map.empty, mem_pods = [], mem_fault = None \<rparr>"

definition ex_foreign_apiservice :: APIService where
  "ex_foreign_apiservice =
     \<lparr> as_Name = metricsGroupAPI,
       as_ResourceVersion = ''7'',
       as_Service = Some \<lparr> sr_Namespace = ''other'', sr_Name = ''other-svc'' \<rparr>,
       as_Group = ''metrics.k8s.io'',
       as_Version = ''v1beta1'',
       as_InsecureSkipTLSVerify = False,
       as_GroupPriorityMinimum = 100,
       as_VersionPriority = 100 \<rparr>"

definition ex_foreign_service :: "labelset Service" where
  "ex_foreign_service =
     \<lparr> s_Name = ''other-svc'',
       s_Namespace = ''other'',
       s_Labels = Map.empty,
       s_Ports = [\<lparr> sp_Port = 443, sp_TargetPort_IntVal = 8443 \<rparr>],
       s_Selector = [''k8s-app'' \<mapsto> ''metrics-server''] \<rparr>"

definition ex_foreign_plane :: mem where
  "ex_foreign_plane =
     \<lparr> mem_apiservices = [metricsGroupAPI \<mapsto> ex_foreign_apiservice],
       mem_services = [(''other'', ''other-svc'') \<mapsto> ex_foreign_service],
       mem_pods = [],
       mem_fault = None \<rparr>"

text \<open>The control plane after the handler has created its own registration in the
  empty one.\<close>

definition ex_registered_plane :: "metricsServer \<Rightarrow> mem" where
  "ex_registered_plane m =
     ex_empty_plane\<lparr>mem_apiservices :=
       [metricsGroupAPI \<mapsto> (apiserviceForMetricsServer m)\<lparr>as_ResourceVersion := ''1''\<rparr>]\<rparr>"

section \<open>Properties\<close>

subsection \<open>What each method does, case by case\<close>

lemma owned_nil: "apiservice m = None \<Longrightarrow> apiServiceCreatedByRainbond m = Inr True"
  by (simp add: apiServiceCreatedByRainbond_def)

lemma owned_iff:
  "apiservice m = Some a \<Longrightarrow> as_Service a = Some r \<Longrightarrow>
   apiServiceCreatedByRainbond m =
     Inr ((sr_Namespace r, sr_Name r) = (cpt_Namespace (component m), MetricsServerName))"
  by (simp add: apiServiceCreatedByRainbond_def)

lemma serviceForMetricsServer_alloc:
  "labels m = MapAt a \<Longrightarrow>
   serviceForMetricsServer m h =
     Inr (\<lparr> s_Name = MetricsServerName,
            s_Namespace = cpt_Namespace (component m),
            s_Labels = MapAt a,
            s_Ports = [\<lparr> sp_Port = 443, sp_TargetPort_IntVal = 4443 \<rparr>],
            s_Selector = MapAt a \<rparr>,
          h(a := (h a)(''kubernetes.io/name'' \<mapsto> ''Metrics-server'',
                       ''kubernetes.io/cluster-service'' \<mapsto> ''true'')))"
  by (simp add: serviceForMetricsServer_def Let_def)

lemma serviceForMetricsServer_nil:
  "labels m = NilMap \<Longrightarrow> serviceForMetricsServer m h = Inl AssignmentToEntryInNilMap"
  by (simp add: serviceForMetricsServer_def Let_def)

lemma Resources_owned:
  "apiServiceCreatedByRainbond m = Inr True \<Longrightarrow> labels m = MapAt a \<Longrightarrow>
   Resources m h =
     Inr ([DeploymentObj (deployment m),
           ServiceObj \<lparr> s_Name = MetricsServerName,
                        s_Namespace = cpt_Namespace (component m),
                        s_Labels = MapAt a,
                        s_Ports = [\<lparr> sp_Port = 443, sp_TargetPort_IntVal = 4443 \<rparr>],
                        s_Selector = MapAt a \<rparr>],
          h(a := (h a)(''kubernetes.io/name'' \<mapsto> ''Metrics-server'',
                       ''kubernetes.io/cluster-service'' \<mapsto> ''true'')))"
  by (simp add: Resources_def serviceForMetricsServer_alloc)

lemma Resources_foreign:
  "apiServiceCreatedByRainbond m = Inr False \<Longrightarrow> Resources m h = Inr ([], h)"
  by (simp add: Resources_def)

lemma Resources_Inr_cases:
  "Resources m h = Inr (objs, h') \<Longrightarrow>
   (apiServiceCreatedByRainbond m = Inr False \<and> objs = [] \<and> h' = h) \<or>
   (\<exists>a. apiServiceCreatedByRainbond m = Inr True \<and> labels m = MapAt a)"
  by (cases "labels m")
     (auto simp add: Resources_def serviceForMetricsServer_nil serviceForMetricsServer_alloc
           split: sum.splits if_splits)

lemma After_foreign:
  "apiServiceCreatedByRainbond m = Inr False \<Longrightarrow> After c m s = Inr (None, s)"
  by (simp add: After_def)

lemma After_owned_get_failed:
  "apiServiceCreatedByRainbond m = Inr True \<Longrightarrow>
   client_Get_APIService c ('''', metricsGroupAPI) w = (Inl e, w1) \<Longrightarrow> e \<noteq> NotFound \<Longrightarrow>
   After c m (w, tr) =
     Inr (Some (GetAPIServiceFailed MetricsServerName (cluster_Namespace (cluster m)) e),
          (w1, tr @ [CallGetAPIService ('''', metricsGroupAPI)]))"
  by (cases e) (simp_all add: After_def Get_APIService_def)

lemma After_owned_create:
  "apiServiceCreatedByRainbond m = Inr True \<Longrightarrow>
   client_Get_APIService c ('''', metricsGroupAPI) w = (Inl NotFound, w1) \<Longrightarrow>
   client_Create c (apiserviceForMetricsServer m) w1 = (cr, w2) \<Longrightarrow>
   After c m (w, tr) =
     Inr (map_option CreateFailed cr,
          (w2, tr @ [CallGetAPIService ('''', metricsGroupAPI),
                     CallCreate (apiserviceForMetricsServer m)]))"
  by (cases cr) (simp_all add: After_def Get_APIService_def Create_def)

lemma After_owned_update:
  "apiServiceCreatedByRainbond m = Inr True \<Longrightarrow>
   client_Get_APIService c ('''', metricsGroupAPI) w = (Inr cur, w1) \<Longrightarrow>
   client_Update c ((apiserviceForMetricsServer m)\<lparr>as_ResourceVersion := as_ResourceVersion cur\<rparr>) w1
     = (ur, w2) \<Longrightarrow>
   After c m (w, tr) =
     Inr (map_option UpdateFailed ur,
          (w2, tr @ [CallGetAPIService ('''', metricsGroupAPI),
                     CallUpdate ((apiserviceForMetricsServer m)
                                   \<lparr>as_ResourceVersion := as_ResourceVersion cur\<rparr>)]))"
  by (cases ur) (simp_all add: After_def Get_APIService_def Update_def)

lemma Before_found:
  "client_Get_APIService c ('''', metricsGroupAPI) w = (Inr a, w1) \<Longrightarrow>
   Before c m (w, tr) =
     (None, m\<lparr>apiservice := Some a\<rparr>, (w1, tr @ [CallGetAPIService ('''', metricsGroupAPI)]))"
  by (simp add: Before_def Get_APIService_def)

lemma Before_not_found:
  "client_Get_APIService c ('''', metricsGroupAPI) w = (Inl NotFound, w1) \<Longrightarrow>
   Before c m (w, tr) = (None, m, (w1, tr @ [CallGetAPIService ('''', metricsGroupAPI)]))"
  by (simp add: Before_def Get_APIService_def)

lemma Before_failed:
  "client_Get_APIService c ('''', metricsGroupAPI) w = (Inl e, w1) \<Longrightarrow> e \<noteq> NotFound \<Longrightarrow>
   Before c m (w, tr) =
     (Some (GetAPIServiceFailed MetricsServerName (cluster_Namespace (cluster m)) e), m,
      (w1, tr @ [CallGetAPIService ('''', metricsGroupAPI)]))"
  by (cases e) (simp_all add: Before_def Get_APIService_def)

lemma ListPods_foreign:
  "apiservice m = Some a \<Longrightarrow> as_Service a = Some r \<Longrightarrow>
   apiServiceCreatedByRainbond m = Inr False \<Longrightarrow>
   client_Get_Service c (sr_Namespace r, sr_Name r) w = (g, w1) \<Longrightarrow>
   ListPods c m h (w, tr) =
     (case g of
        Inl e \<Rightarrow> Inr (Inl (GetSvcFailed e), (w1, tr @ [CallGetService (sr_Namespace r, sr_Name r)]))
      | Inr svc \<Rightarrow>
          (case client_listPods c (cpt_Namespace (component m)) (s_Selector svc) w1 of
             (l, w2) \<Rightarrow>
               Inr (case l of Inl e \<Rightarrow> Inl (ListPodsFailed e) | Inr pods \<Rightarrow> Inr pods,
                    (w2, tr @ [CallGetService (sr_Namespace r, sr_Name r),
                               CallListPods (cpt_Namespace (component m)) (s_Selector svc)]))))"
  by (auto simp add: ListPods_def Get_Service_def listPods_def split: sum.splits prod.splits)

lemma ListPods_owned:
  "apiServiceCreatedByRainbond m = Inr True \<Longrightarrow>
   client_listPods c (cpt_Namespace (component m)) (deref h (labels m)) w = (l, w2) \<Longrightarrow>
   ListPods c m h (w, tr) =
     Inr (case l of Inl e \<Rightarrow> Inl (ListPodsFailed e) | Inr pods \<Rightarrow> Inr pods,
          (w2, tr @ [CallListPods (cpt_Namespace (component m)) (deref h (labels m))]))"
  by (auto simp add: ListPods_def listPods_def split: sum.splits prod.splits)

text \<open>The in-memory control plane, evaluated.\<close>

lemma mem_Get_APIService:
  "client_Get_APIService mem_client key w =
     (case mem_fault w of
        Some e \<Rightarrow> Inl e
      | None \<Rightarrow> (case mem_apiservices w (snd key) of None \<Rightarrow> Inl NotFound | Some a \<Rightarrow> Inr a), w)"
  by (simp add: mem_client_def)

lemma mem_Get_Service:
  "client_Get_Service mem_client key w =
     (case mem_fault w of
        Some e \<Rightarrow> Inl e
      | None \<Rightarrow> (case mem_services w key of None \<Rightarrow> Inl NotFound | Some v \<Rightarrow> Inr v), w)"
  by (simp add: mem_client_def)

lemma mem_Create_fresh:
  "mem_fault w = None \<Longrightarrow> mem_apiservices w (as_Name obj) = None \<Longrightarrow>
   client_Create mem_client obj w =
     (None, w\<lparr>mem_apiservices :=
        (mem_apiservices w)(as_Name obj \<mapsto> obj\<lparr>as_ResourceVersion := ''1''\<rparr>)\<rparr>)"
  by (simp add: mem_client_def)

lemma mem_Update_current:
  "mem_fault w = None \<Longrightarrow> mem_apiservices w (as_Name obj) = Some cur \<Longrightarrow>
   as_ResourceVersion obj = as_ResourceVersion cur \<Longrightarrow>
   client_Update mem_client obj w =
     (None, w\<lparr>mem_apiservices :=
        (mem_apiservices w)(as_Name obj \<mapsto>
           obj\<lparr>as_ResourceVersion := as_ResourceVersion cur @ ''1''\<rparr>)\<rparr>)"
  by (simp add: mem_client_def)

lemma mem_listPods_none:
  "mem_fault w = None \<Longrightarrow> mem_pods w = [] \<Longrightarrow> client_listPods mem_client ns sel w = (Inr [], w)"
  by (simp add: mem_client_def)

subsection \<open>Before\<close>

text \<open>
  Claim C7. Whatever the control plane answers to the Get of the singleton, \<^verbatim>\<open>Before\<close>
  issues that one Get and no other call (so no create and no update), and leaves the
  control plane as the Get left it. It returns nil exactly when the Get succeeded or
  answered NotFound, and a non-nil error exactly when the Get failed with an error other
  than NotFound.
\<close>

theorem Before_error_discipline:
  assumes get: "client_Get_APIService c ('''', metricsGroupAPI) w = (r, w1)"
  shows "\<exists>res m'.
           Before c m (w, tr) = (res, m', (w1, tr @ [CallGetAPIService ('''', metricsGroupAPI)])) \<and>
           (res = None) = (r = Inl NotFound \<or> (\<exists>a. r = Inr a)) \<and>
           (res \<noteq> None) = (\<exists>e. r = Inl e \<and> e \<noteq> NotFound)"
proof (cases r)
  case (Inr a)
  with get show ?thesis by (simp add: Before_found)
next
  case (Inl e)
  show ?thesis
  proof (cases "e = NotFound")
    case True
    with Inl get show ?thesis by (simp add: Before_not_found)
  next
    case False
    with Inl get show ?thesis by (simp add: Before_failed)
  qed
qed

text \<open>
  The hypothesis of C7 holds, with an unavailable control plane as the answer.
\<close>

theorem Before_error_discipline_witness:
  "client_Get_APIService mem_client ('''', metricsGroupAPI) (ex_empty_plane\<lparr>mem_fault := Some Unavailable\<rparr>)
     = (Inl Unavailable, ex_empty_plane\<lparr>mem_fault := Some Unavailable\<rparr>) \<and>
   (\<exists>res m'.
      Before mem_client ex_handler (ex_empty_plane\<lparr>mem_fault := Some Unavailable\<rparr>, []) =
        (res, m', (ex_empty_plane\<lparr>mem_fault := Some Unavailable\<rparr>,
                   [] @ [CallGetAPIService ('''', metricsGroupAPI)])) \<and>
      (res = None) = ((Inl Unavailable :: k8s_error + APIService) = Inl NotFound \<or>
                      (\<exists>a. (Inl Unavailable :: k8s_error + APIService) = Inr a)) \<and>
      (res \<noteq> None) = (\<exists>e. (Inl Unavailable :: k8s_error + APIService) = Inl e \<and> e \<noteq> NotFound))"
proof -
  have get: "client_Get_APIService mem_client ('''', metricsGroupAPI)
               (ex_empty_plane\<lparr>mem_fault := Some Unavailable\<rparr>)
             = (Inl Unavailable, ex_empty_plane\<lparr>mem_fault := Some Unavailable\<rparr>)"
    by (simp add: mem_Get_APIService)
  from get Before_error_discipline [OF get, of ex_handler "[]"] show ?thesis by blast
qed

subsection \<open>A foreign singleton\<close>

text \<open>
  Claim C1. Let \<^verbatim>\<open>Before\<close> have observed a singleton \<open>a\<close> whose back-reference \<open>r\<close> differs
  from (namespace of the component, \<^verbatim>\<open>metrics-server\<close>), and let \<open>m\<close> be the handler it
  leaves. Then the handler is not the owner; \<^verbatim>\<open>Resources\<close> returns no object and writes
  nothing; \<^verbatim>\<open>After\<close> returns nil without a single call to the control plane;
  \<^verbatim>\<open>ListPods\<close> gets the service that \<open>r\<close> names and, when the Get answers a service, lists
  the pods with that service's selector (the handler's own label map is not read);
  when the Get fails, it returns the error and lists nothing.
\<close>

theorem foreign_singleton_deference:
  assumes observed: "client_Get_APIService c ('''', metricsGroupAPI) w0 = (Inr a, w1)"
      and before: "Before c m0 (w0, tr0) = (res, m, s1)"
      and backref: "as_Service a = Some r"
      and foreign: "(sr_Namespace r, sr_Name r) \<noteq> (cpt_Namespace (component m0), MetricsServerName)"
      and svc: "client_Get_Service c (sr_Namespace r, sr_Name r) w = (g, w')"
  shows "apiServiceCreatedByRainbond m = Inr False \<and>
         Resources m h = Inr ([], h) \<and>
         After c m (w, tr) = Inr (None, (w, tr)) \<and>
         ListPods c m h (w, tr) =
           (case g of
              Inl e \<Rightarrow>
                Inr (Inl (GetSvcFailed e), (w', tr @ [CallGetService (sr_Namespace r, sr_Name r)]))
            | Inr svc \<Rightarrow>
                (case client_listPods c (cpt_Namespace (component m)) (s_Selector svc) w' of
                   (l, w'') \<Rightarrow>
                     Inr (case l of Inl e \<Rightarrow> Inl (ListPodsFailed e) | Inr pods \<Rightarrow> Inr pods,
                          (w'', tr @ [CallGetService (sr_Namespace r, sr_Name r),
                                      CallListPods (cpt_Namespace (component m)) (s_Selector svc)]))))"
proof -
  from observed before have m: "m = m0\<lparr>apiservice := Some a\<rparr>"
    by (simp add: Before_found)
  then have stored: "apiservice m = Some a" and same: "component m = component m0"
    by simp_all
  from foreign same have "apiServiceCreatedByRainbond m = Inr False"
    by (simp add: owned_iff [OF stored backref])
  then show ?thesis
    by (simp add: Resources_foreign After_foreign ListPods_foreign [OF stored backref _ svc])
qed

text \<open>
  The hypotheses of C1 hold on the control plane with the registration
  \<open>other/other-svc\<close>, for the component in namespace \<open>platform\<close>.
\<close>

theorem foreign_singleton_deference_witness:
  "client_Get_APIService mem_client ('''', metricsGroupAPI) ex_foreign_plane
     = (Inr ex_foreign_apiservice, ex_foreign_plane) \<and>
   Before mem_client ex_handler (ex_foreign_plane, [])
     = (None, ex_handler\<lparr>apiservice := Some ex_foreign_apiservice\<rparr>,
        (ex_foreign_plane, [CallGetAPIService ('''', metricsGroupAPI)])) \<and>
   as_Service ex_foreign_apiservice = Some \<lparr> sr_Namespace = ''other'', sr_Name = ''other-svc'' \<rparr> \<and>
   (''other'', ''other-svc'') \<noteq> (cpt_Namespace (component ex_handler), MetricsServerName) \<and>
   client_Get_Service mem_client (''other'', ''other-svc'') ex_foreign_plane
     = (Inr ex_foreign_service, ex_foreign_plane) \<and>
   apiServiceCreatedByRainbond (ex_handler\<lparr>apiservice := Some ex_foreign_apiservice\<rparr>) = Inr False \<and>
   Resources (ex_handler\<lparr>apiservice := Some ex_foreign_apiservice\<rparr>) ex_heap = Inr ([], ex_heap) \<and>
   After mem_client (ex_handler\<lparr>apiservice := Some ex_foreign_apiservice\<rparr>) (ex_foreign_plane, [])
     = Inr (None, (ex_foreign_plane, [])) \<and>
   ListPods mem_client (ex_handler\<lparr>apiservice := Some ex_foreign_apiservice\<rparr>) ex_heap
       (ex_foreign_plane, [])
     = Inr (Inr [], (ex_foreign_plane,
                     [CallGetService (''other'', ''other-svc''),
                      CallListPods ''platform'' [''k8s-app'' \<mapsto> ''metrics-server'']]))"
proof -
  let ?r = "\<lparr> sr_Namespace = ''other'', sr_Name = ''other-svc'' \<rparr>"
  let ?m = "ex_handler\<lparr>apiservice := Some ex_foreign_apiservice\<rparr>"
  have observed: "client_Get_APIService mem_client ('''', metricsGroupAPI) ex_foreign_plane
                    = (Inr ex_foreign_apiservice, ex_foreign_plane)"
    by (simp add: mem_Get_APIService ex_foreign_plane_def)
  have before: "Before mem_client ex_handler (ex_foreign_plane, [])
                  = (None, ?m, (ex_foreign_plane, [CallGetAPIService ('''', metricsGroupAPI)]))"
    by (simp add: Before_found [OF observed])
  have backref: "as_Service ex_foreign_apiservice = Some ?r"
    by (simp add: ex_foreign_apiservice_def)
  have foreign: "(sr_Namespace ?r, sr_Name ?r) \<noteq> (cpt_Namespace (component ex_handler), MetricsServerName)"
    by (simp add: ex_handler_def NewMetricsServer_def ex_component_def MetricsServerName_def)
  have svc: "client_Get_Service mem_client (sr_Namespace ?r, sr_Name ?r) ex_foreign_plane
               = (Inr ex_foreign_service, ex_foreign_plane)"
    by (simp add: mem_Get_Service ex_foreign_plane_def)
  have lst: "client_listPods mem_client ns sel ex_foreign_plane = (Inr [], ex_foreign_plane)" for ns sel
    by (simp add: mem_listPods_none ex_foreign_plane_def)
  have ns: "cpt_Namespace (component ex_handler) = ''platform''"
    by (simp add: ex_handler_def NewMetricsServer_def ex_component_def)
  have sel: "s_Selector ex_foreign_service = [''k8s-app'' \<mapsto> ''metrics-server'']"
    by (simp add: ex_foreign_service_def)
  from foreign_singleton_deference [OF observed before backref foreign svc, of ex_heap "[]"]
  have "apiServiceCreatedByRainbond ?m = Inr False \<and>
        Resources ?m ex_heap = Inr ([], ex_heap) \<and>
        After mem_client ?m (ex_foreign_plane, []) = Inr (None, (ex_foreign_plane, [])) \<and>
        ListPods mem_client ?m ex_heap (ex_foreign_plane, [])
          = Inr (Inr [], (ex_foreign_plane,
                          [CallGetService (''other'', ''other-svc''),
                           CallListPods ''platform'' [''k8s-app'' \<mapsto> ''metrics-server'']]))"
    by (simp add: lst ns sel)
  with observed before backref foreign svc show ?thesis by simp
qed

subsection \<open>No singleton yet\<close>




subsection \<open>After: create, then update\<close>

text \<open>
  Claim C4. For an owned handler \<^verbatim>\<open>After\<close> first gets the singleton; \<open>new\<close> is what it
  issues after that Get. On NotFound it is one create of the freshly built object,
  whose revision token is empty. When the Get answers the current object \<open>cur\<close>, it is one
  update of the built object carrying the revision token of \<open>cur\<close>. On any other error
  nothing is issued. So every update issued carries the token the Get observed, and
  every create is token-free. The result is nil or the wrapped error of the call.
\<close>

theorem create_then_update:
  assumes owned: "apiServiceCreatedByRainbond m = Inr True"
      and get: "client_Get_APIService c ('''', metricsGroupAPI) w = (r, w1)"
  shows "\<exists>res w2 new.
           After c m (w, tr) = Inr (res, (w2, tr @ CallGetAPIService ('''', metricsGroupAPI) # new)) \<and>
           new = (case r of
                    Inl e \<Rightarrow> if e = NotFound then [CallCreate (apiserviceForMetricsServer m)] else []
                  | Inr cur \<Rightarrow>
                      [CallUpdate ((apiserviceForMetricsServer m)
                                     \<lparr>as_ResourceVersion := as_ResourceVersion cur\<rparr>)]) \<and>
           as_ResourceVersion (apiserviceForMetricsServer m) = '''' \<and>
           (\<forall>obj. CallCreate obj \<in> set new \<longrightarrow>
                    r = Inl NotFound \<and> obj = apiserviceForMetricsServer m \<and> as_ResourceVersion obj = '''') \<and>
           (\<forall>obj. CallUpdate obj \<in> set new \<longrightarrow>
                    (\<exists>cur. r = Inr cur \<and> as_ResourceVersion obj = as_ResourceVersion cur)) \<and>
           res = (case r of
                    Inl e \<Rightarrow>
                      if e = NotFound
                      then map_option CreateFailed (fst (client_Create c (apiserviceForMetricsServer m) w1))
                      else Some (GetAPIServiceFailed MetricsServerName (cluster_Namespace (cluster m)) e)
                  | Inr cur \<Rightarrow>
                      map_option UpdateFailed
                        (fst (client_Update c ((apiserviceForMetricsServer m)
                                \<lparr>as_ResourceVersion := as_ResourceVersion cur\<rparr>) w1)))"
proof -
  have fresh: "as_ResourceVersion (apiserviceForMetricsServer m) = ''''"
    by (simp add: apiserviceForMetricsServer_def)
  show ?thesis
  proof (cases r)
    case (Inr cur)
    obtain ur w2 where
      upd: "client_Update c ((apiserviceForMetricsServer m)\<lparr>as_ResourceVersion := as_ResourceVersion cur\<rparr>) w1
              = (ur, w2)"
      by (cases "client_Update c ((apiserviceForMetricsServer m)\<lparr>as_ResourceVersion := as_ResourceVersion cur\<rparr>) w1")
    from get Inr have "client_Get_APIService c ('''', metricsGroupAPI) w = (Inr cur, w1)" by simp
    from After_owned_update [OF owned this upd, of tr] Inr upd fresh show ?thesis by simp
  next
    case (Inl e)
    show ?thesis
    proof (cases "e = NotFound")
      case True
      obtain cr w2 where crt: "client_Create c (apiserviceForMetricsServer m) w1 = (cr, w2)"
        by (cases "client_Create c (apiserviceForMetricsServer m) w1")
      from get Inl True have "client_Get_APIService c ('''', metricsGroupAPI) w = (Inl NotFound, w1)"
        by simp
      from After_owned_create [OF owned this crt, of tr] Inl True crt fresh show ?thesis by simp
    next
      case False
      from get Inl have "client_Get_APIService c ('''', metricsGroupAPI) w = (Inl e, w1)" by simp
      from After_owned_get_failed [OF owned this False, of tr] Inl False fresh show ?thesis by simp
    qed
  qed
qed


text \<open>
  The hypotheses of C4 hold twice in a row on the in-memory control plane: the first
  \<^verbatim>\<open>After\<close> finds nothing and creates the registration without a token; the second
  finds it at revision \<open>1\<close> and sends the update with that token.
\<close>

theorem create_then_update_witness:
  "apiServiceCreatedByRainbond ex_handler = Inr True \<and>
   client_Get_APIService mem_client ('''', metricsGroupAPI) ex_empty_plane
     = (Inl NotFound, ex_empty_plane) \<and>
   After mem_client ex_handler (ex_empty_plane, [])
     = Inr (None, (ex_registered_plane ex_handler,
                   [CallGetAPIService ('''', metricsGroupAPI),
                    CallCreate (apiserviceForMetricsServer ex_handler)])) \<and>
   as_ResourceVersion (apiserviceForMetricsServer ex_handler) = '''' \<and>
   client_Get_APIService mem_client ('''', metricsGroupAPI) (ex_registered_plane ex_handler)
     = (Inr ((apiserviceForMetricsServer ex_handler)\<lparr>as_ResourceVersion := ''1''\<rparr>),
        ex_registered_plane ex_handler) \<and>
   (\<exists>res w2.
      After mem_client ex_handler (ex_registered_plane ex_handler, [])
        = Inr (res, (w2, [CallGetAPIService ('''', metricsGroupAPI),
                          CallUpdate ((apiserviceForMetricsServer ex_handler)
                                        \<lparr>as_ResourceVersion := ''1''\<rparr>)])))"
proof -
  have owned: "apiServiceCreatedByRainbond ex_handler = Inr True"
    by (simp add: owned_nil ex_handler_def NewMetricsServer_def)
  have name: "as_Name (apiserviceForMetricsServer ex_handler) = metricsGroupAPI"
    by (simp add: apiserviceForMetricsServer_def)
  have get1: "client_Get_APIService mem_client ('''', metricsGroupAPI) ex_empty_plane
                = (Inl NotFound, ex_empty_plane)"
    by (simp add: mem_Get_APIService ex_empty_plane_def)
  have crt: "client_Create mem_client (apiserviceForMetricsServer ex_handler) ex_empty_plane
               = (None, ex_registered_plane ex_handler)"
  proof -
    have nofault: "mem_fault ex_empty_plane = None"
      by (simp add: ex_empty_plane_def)
    have free: "mem_apiservices ex_empty_plane (as_Name (apiserviceForMetricsServer ex_handler)) = None"
      by (simp add: ex_empty_plane_def)
    from mem_Create_fresh [OF nofault free] show ?thesis
      by (simp add: name ex_registered_plane_def) (simp add: ex_empty_plane_def)
  qed
  have get2: "client_Get_APIService mem_client ('''', metricsGroupAPI) (ex_registered_plane ex_handler)
                = (Inr ((apiserviceForMetricsServer ex_handler)\<lparr>as_ResourceVersion := ''1''\<rparr>),
                   ex_registered_plane ex_handler)"
    by (simp add: mem_Get_APIService ex_registered_plane_def ex_empty_plane_def)
  from create_then_update [OF owned get1, of "[]"] crt
  have first: "After mem_client ex_handler (ex_empty_plane, [])
                 = Inr (None, (ex_registered_plane ex_handler,
                               [CallGetAPIService ('''', metricsGroupAPI),
                                CallCreate (apiserviceForMetricsServer ex_handler)]))"
    by (simp add: After_owned_create [OF owned get1 crt])
  from create_then_update [OF owned get2, of "[]"]
  have second: "\<exists>res w2.
      After mem_client ex_handler (ex_registered_plane ex_handler, [])
        = Inr (res, (w2, [CallGetAPIService ('''', metricsGroupAPI),
                          CallUpdate ((apiserviceForMetricsServer ex_handler)
                                        \<lparr>as_ResourceVersion := ''1''\<rparr>)]))"
    by auto
  from owned get1 first get2 second show ?thesis
    by (simp add: apiserviceForMetricsServer_def)
qed

subsection \<open>Ownership without an observation\<close>

text \<open>
  Claim C10. The field \<^verbatim>\<open>apiservice\<close> is nil in the handler the constructor returns, and
  still nil after a \<^verbatim>\<open>Before\<close> on it whose Get answered NotFound. Whenever the field is
  nil, \<^verbatim>\<open>apiServiceCreatedByRainbond\<close> returns true without looking at anything else;
  \<^verbatim>\<open>Resources\<close> then returns the Deployment and the Service (for an allocated label
  map), and \<^verbatim>\<open>After\<close> goes on to the Get and from there to the create (NotFound) or
  the update (found).
\<close>

theorem default_ownership:
  "apiservice (NewMetricsServer lbls cpt cl) = None \<and>
   (client_Get_APIService c ('''', metricsGroupAPI) w0 = (Inl NotFound, w0') \<longrightarrow>
      apiservice (fst (snd (Before c (NewMetricsServer lbls cpt cl) (w0, tr0)))) = None) \<and>
   (apiservice m = None \<longrightarrow>
      apiServiceCreatedByRainbond m = Inr True \<and>
      (labels m = MapAt a \<longrightarrow>
         (\<exists>svc h'. Resources m h = Inr ([DeploymentObj (deployment m), ServiceObj svc], h'))) \<and>
      (client_Get_APIService c ('''', metricsGroupAPI) w = (r, w1) \<longrightarrow>
         (\<exists>res w2.
            After c m (w, tr) =
              Inr (res, (w2, tr @ CallGetAPIService ('''', metricsGroupAPI) #
                     (case r of
                        Inl e \<Rightarrow> if e = NotFound then [CallCreate (apiserviceForMetricsServer m)] else []
                      | Inr cur \<Rightarrow>
                          [CallUpdate ((apiserviceForMetricsServer m)
                                         \<lparr>as_ResourceVersion := as_ResourceVersion cur\<rparr>)]))))))"
proof (intro conjI impI)
  show "apiservice (NewMetricsServer lbls cpt cl) = None"
    by (simp add: NewMetricsServer_def)
next
  assume "client_Get_APIService c ('''', metricsGroupAPI) w0 = (Inl NotFound, w0')"
  then show "apiservice (fst (snd (Before c (NewMetricsServer lbls cpt cl) (w0, tr0)))) = None"
    by (simp add: Before_not_found NewMetricsServer_def)
next
  assume "apiservice m = None"
  then show "apiServiceCreatedByRainbond m = Inr True" by (rule owned_nil)
next
  assume "apiservice m = None" and "labels m = MapAt a"
  then show "\<exists>svc h'. Resources m h = Inr ([DeploymentObj (deployment m), ServiceObj svc], h')"
    by (simp add: Resources_owned owned_nil)
next
  assume nil: "apiservice m = None"
     and get: "client_Get_APIService c ('''', metricsGroupAPI) w = (r, w1)"
  have owned: "apiServiceCreatedByRainbond m = Inr True" using nil by (rule owned_nil)
  show "\<exists>res w2.
          After c m (w, tr) =
            Inr (res, (w2, tr @ CallGetAPIService ('''', metricsGroupAPI) #
                   (case r of
                      Inl e \<Rightarrow> if e = NotFound then [CallCreate (apiserviceForMetricsServer m)] else []
                    | Inr cur \<Rightarrow>
                        [CallUpdate ((apiserviceForMetricsServer m)
                                       \<lparr>as_ResourceVersion := as_ResourceVersion cur\<rparr>)])))"
  proof (cases r)
    case (Inr cur)
    obtain ur w2 where
      upd: "client_Update c ((apiserviceForMetricsServer m)\<lparr>as_ResourceVersion := as_ResourceVersion cur\<rparr>) w1
              = (ur, w2)"
      by (cases "client_Update c ((apiserviceForMetricsServer m)\<lparr>as_ResourceVersion := as_ResourceVersion cur\<rparr>) w1")
    from get Inr have "client_Get_APIService c ('''', metricsGroupAPI) w = (Inr cur, w1)" by simp
    from After_owned_update [OF owned this upd, of tr] Inr show ?thesis by simp
  next
    case (Inl e)
    show ?thesis
    proof (cases "e = NotFound")
      case True
      obtain cr w2 where crt: "client_Create c (apiserviceForMetricsServer m) w1 = (cr, w2)"
        by (cases "client_Create c (apiserviceForMetricsServer m) w1")
      from get Inl True have "client_Get_APIService c ('''', metricsGroupAPI) w = (Inl NotFound, w1)"
        by simp
      from After_owned_create [OF owned this crt, of tr] Inl True show ?thesis by simp
    next
      case False
      from get Inl have "client_Get_APIService c ('''', metricsGroupAPI) w = (Inl e, w1)" by simp
      from After_owned_get_failed [OF owned this False, of tr] Inl False show ?thesis by simp
    qed
  qed
qed

text \<open>
  The hypotheses inside C10 hold for the example handler on the empty control plane.
\<close>

theorem default_ownership_witness:
  "apiservice (NewMetricsServer (MapAt 0) ex_component ex_cluster) = None \<and>
   client_Get_APIService mem_client ('''', metricsGroupAPI) ex_empty_plane
     = (Inl NotFound, ex_empty_plane) \<and>
   apiservice (fst (snd (Before mem_client (NewMetricsServer (MapAt 0) ex_component ex_cluster)
                           (ex_empty_plane, [])))) = None \<and>
   apiservice ex_handler = None \<and>
   apiServiceCreatedByRainbond ex_handler = Inr True \<and>
   labels ex_handler = MapAt 0 \<and>
   (\<exists>svc h'. Resources ex_handler ex_heap
                = Inr ([DeploymentObj (deployment ex_handler), ServiceObj svc], h')) \<and>
   (\<exists>res w2. After mem_client ex_handler (ex_empty_plane, [])
                = Inr (res, (w2, [CallGetAPIService ('''', metricsGroupAPI),
                                  CallCreate (apiserviceForMetricsServer ex_handler)])))"
proof -
  have get: "client_Get_APIService mem_client ('''', metricsGroupAPI) ex_empty_plane
               = (Inl NotFound, ex_empty_plane)"
    by (simp add: mem_Get_APIService ex_empty_plane_def)
  have nil: "apiservice ex_handler = None"
    by (simp add: ex_handler_def NewMetricsServer_def)
  have alloc: "labels ex_handler = MapAt 0"
    by (simp add: ex_handler_def NewMetricsServer_def)
  from default_ownership [of "MapAt 0" ex_component ex_cluster mem_client ex_empty_plane
                             ex_empty_plane "[]" ex_handler 0 ex_heap ex_empty_plane
                             "Inl NotFound" ex_empty_plane "[]"]
       get nil alloc
  show ?thesis by simp
qed

text \<open>Adding the two entries a second time changes nothing.\<close>

lemma augment_twice:
  "((l :: labelset)(''kubernetes.io/name'' \<mapsto> ''Metrics-server'',
      ''kubernetes.io/cluster-service'' \<mapsto> ''true''))
     (''kubernetes.io/name'' \<mapsto> ''Metrics-server'',
      ''kubernetes.io/cluster-service'' \<mapsto> ''true'')
   = l(''kubernetes.io/name'' \<mapsto> ''Metrics-server'',
       ''kubernetes.io/cluster-service'' \<mapsto> ''true'')"
  by (rule ext) simp

subsection \<open>Resources called twice\<close>

text \<open>
  Claim C6. When \<^verbatim>\<open>Resources\<close> returns an object set, a second call on the same handler,
  started from the store the first call left, returns an object set with the same
  contents: read through the store each call leaves, the two sets are equal. (They are
  even the same references, and the second call leaves the store as it found it: the
  two entries the Service helper writes are already there.)
\<close>

theorem Resources_idempotent:
  assumes first: "Resources m h = Inr (objs1, h1)"
  shows "\<exists>objs2 h2.
           Resources m h1 = Inr (objs2, h2) \<and>
           map (resolve_object h2) objs2 = map (resolve_object h1) objs1 \<and>
           objs2 = objs1 \<and> h2 = h1"
proof -
  from Resources_Inr_cases [OF first] show ?thesis
  proof
    assume "apiServiceCreatedByRainbond m = Inr False \<and> objs1 = [] \<and> h1 = h"
    then show ?thesis by (simp add: Resources_foreign)
  next
    assume "\<exists>a. apiServiceCreatedByRainbond m = Inr True \<and> labels m = MapAt a"
    then obtain a where owned: "apiServiceCreatedByRainbond m = Inr True"
      and alloc: "labels m = MapAt a" by blast
    from first Resources_owned [OF owned alloc, of h]
    have objs1: "objs1 = [DeploymentObj (deployment m),
                          ServiceObj \<lparr> s_Name = MetricsServerName,
                                       s_Namespace = cpt_Namespace (component m),
                                       s_Labels = MapAt a,
                                       s_Ports = [\<lparr> sp_Port = 443, sp_TargetPort_IntVal = 4443 \<rparr>],
                                       s_Selector = MapAt a \<rparr>]"
      and h1: "h1 = h(a := (h a)(''kubernetes.io/name'' \<mapsto> ''Metrics-server'',
                                 ''kubernetes.io/cluster-service'' \<mapsto> ''true''))"
      by simp_all
    have "h1(a := (h1 a)(''kubernetes.io/name'' \<mapsto> ''Metrics-server'',
                         ''kubernetes.io/cluster-service'' \<mapsto> ''true'')) = h1"
      unfolding h1 by (simp add: augment_twice)
    with Resources_owned [OF owned alloc, of h1] objs1 show ?thesis by simp
  qed
qed

text \<open>
  The hypothesis of C6 holds for the example handler: both calls return the same set.
\<close>

theorem Resources_idempotent_witness:
  "Resources ex_handler ex_heap
     = Inr ([DeploymentObj (deployment ex_handler),
             ServiceObj \<lparr> s_Name = MetricsServerName,
                          s_Namespace = ''platform'',
                          s_Labels = MapAt 0,
                          s_Ports = [\<lparr> sp_Port = 443, sp_TargetPort_IntVal = 4443 \<rparr>],
                          s_Selector = MapAt 0 \<rparr>],
            ex_heap(0 := (ex_heap 0)(''kubernetes.io/name'' \<mapsto> ''Metrics-server'',
                                     ''kubernetes.io/cluster-service'' \<mapsto> ''true''))) \<and>
   Resources ex_handler
       (ex_heap(0 := (ex_heap 0)(''kubernetes.io/name'' \<mapsto> ''Metrics-server'',
                                 ''kubernetes.io/cluster-service'' \<mapsto> ''true'')))
     = Inr ([DeploymentObj (deployment ex_handler),
             ServiceObj \<lparr> s_Name = MetricsServerName,
                          s_Namespace = ''platform'',
                          s_Labels = MapAt 0,
                          s_Ports = [\<lparr> sp_Port = 443, sp_TargetPort_IntVal = 4443 \<rparr>],
                          s_Selector = MapAt 0 \<rparr>],
            ex_heap(0 := (ex_heap 0)(''kubernetes.io/name'' \<mapsto> ''Metrics-server'',
                                     ''kubernetes.io/cluster-service'' \<mapsto> ''true'')))"
proof -
  have owned: "apiServiceCreatedByRainbond ex_handler = Inr True"
    by (simp add: owned_nil ex_handler_def NewMetricsServer_def)
  have alloc: "labels ex_handler = MapAt 0"
    by (simp add: ex_handler_def NewMetricsServer_def)
  have ns: "cpt_Namespace (component ex_handler) = ''platform''"
    by (simp add: ex_handler_def NewMetricsServer_def ex_component_def)
  have first: "Resources ex_handler ex_heap
     = Inr ([DeploymentObj (deployment ex_handler),
             ServiceObj \<lparr> s_Name = MetricsServerName,
                          s_Namespace = ''platform'',
                          s_Labels = MapAt 0,
                          s_Ports = [\<lparr> sp_Port = 443, sp_TargetPort_IntVal = 4443 \<rparr>],
                          s_Selector = MapAt 0 \<rparr>],
            ex_heap(0 := (ex_heap 0)(''kubernetes.io/name'' \<mapsto> ''Metrics-server'',
                                     ''kubernetes.io/cluster-service'' \<mapsto> ''true'')))"
    using Resources_owned [OF owned alloc, of ex_heap] by (simp add: ns)
  from Resources_idempotent [OF first] first show ?thesis by simp
qed

subsection \<open>The Deployment selects its own pods\<close>

text \<open>
  Claim C9. For every Deployment in a set that \<^verbatim>\<open>Resources\<close> returns, the selector's
  \<^verbatim>\<open>matchLabels\<close> and the pod template's labels are the same reference, so they have
  the same contents in the store before the call, in the store after the Service helper
  has written the shared map, and in every other store.
\<close>

theorem deployment_self_selection:
  assumes built: "Resources m h = Inr (objs, h')"
      and member: "DeploymentObj d \<in> set objs"
  shows "d_Selector d = Some \<lparr> ls_MatchLabels = d_Template_Labels d \<rparr> \<and>
         d_Selector (resolve_Deployment h d)
           = Some \<lparr> ls_MatchLabels = d_Template_Labels (resolve_Deployment h d) \<rparr> \<and>
         d_Selector (resolve_Deployment h' d)
           = Some \<lparr> ls_MatchLabels = d_Template_Labels (resolve_Deployment h' d) \<rparr> \<and>
         (\<forall>g. d_Selector (resolve_Deployment g d)
                = Some \<lparr> ls_MatchLabels = d_Template_Labels (resolve_Deployment g d) \<rparr>)"
proof -
  from Resources_Inr_cases [OF built] member
  obtain a where owned: "apiServiceCreatedByRainbond m = Inr True"
    and alloc: "labels m = MapAt a" by auto
  from built member Resources_owned [OF owned alloc, of h] have "d = deployment m"
    by auto
  then show ?thesis
    by (simp add: deployment_def resolve_Deployment_def)
qed

text \<open>
  The hypotheses of C9 hold for the example handler; after the call both label sets
  hold the original entry and the two added ones.
\<close>

theorem deployment_self_selection_witness:
  "Resources ex_handler ex_heap
     = Inr ([DeploymentObj (deployment ex_handler),
             ServiceObj \<lparr> s_Name = MetricsServerName,
                          s_Namespace = ''platform'',
                          s_Labels = MapAt 0,
                          s_Ports = [\<lparr> sp_Port = 443, sp_TargetPort_IntVal = 4443 \<rparr>],
                          s_Selector = MapAt 0 \<rparr>],
            ex_heap(0 := (ex_heap 0)(''kubernetes.io/name'' \<mapsto> ''Metrics-server'',
                                     ''kubernetes.io/cluster-service'' \<mapsto> ''true''))) \<and>
   d_Selector (deployment ex_handler)
     = Some \<lparr> ls_MatchLabels = d_Template_Labels (deployment ex_handler) \<rparr> \<and>
   d_Selector (resolve_Deployment
                 (ex_heap(0 := (ex_heap 0)(''kubernetes.io/name'' \<mapsto> ''Metrics-server'',
                                           ''kubernetes.io/cluster-service'' \<mapsto> ''true'')))
                 (deployment ex_handler))
     = Some \<lparr> ls_MatchLabels =
                [''name'' \<mapsto> ''metrics-server'',
                 ''kubernetes.io/name'' \<mapsto> ''Metrics-server'',
                 ''kubernetes.io/cluster-service'' \<mapsto> ''true''] \<rparr> \<and>
   d_Template_Labels (resolve_Deployment
                 (ex_heap(0 := (ex_heap 0)(''kubernetes.io/name'' \<mapsto> ''Metrics-server'',
                                           ''kubernetes.io/cluster-service'' \<mapsto> ''true'')))
                 (deployment ex_handler))
     = [''name'' \<mapsto> ''metrics-server'',
        ''kubernetes.io/name'' \<mapsto> ''Metrics-server'',
        ''kubernetes.io/cluster-service'' \<mapsto> ''true'']"
proof -
  have owned: "apiServiceCreatedByRainbond ex_handler = Inr True"
    by (simp add: owned_nil ex_handler_def NewMetricsServer_def)
  have alloc: "labels ex_handler = MapAt 0"
    by (simp add: ex_handler_def NewMetricsServer_def)
  have ns: "cpt_Namespace (component ex_handler) = ''platform''"
    by (simp add: ex_handler_def NewMetricsServer_def ex_component_def)
  have built: "Resources ex_handler ex_heap
     = Inr ([DeploymentObj (deployment ex_handler),
             ServiceObj \<lparr> s_Name = MetricsServerName,
                          s_Namespace = ''platform'',
                          s_Labels = MapAt 0,
                          s_Ports = [\<lparr> sp_Port = 443, sp_TargetPort_IntVal = 4443 \<rparr>],
                          s_Selector = MapAt 0 \<rparr>],
            ex_heap(0 := (ex_heap 0)(''kubernetes.io/name'' \<mapsto> ''Metrics-server'',
                                     ''kubernetes.io/cluster-service'' \<mapsto> ''true'')))"
    using Resources_owned [OF owned alloc, of ex_heap] by (simp add: ns)
  have member: "DeploymentObj (deployment ex_handler)
                  \<in> set [DeploymentObj (deployment ex_handler),
                          ServiceObj \<lparr> s_Name = MetricsServerName,
                                       s_Namespace = ''platform'',
                                       s_Labels = MapAt 0,
                                       s_Ports = [\<lparr> sp_Port = 443, sp_TargetPort_IntVal = 4443 \<rparr>],
                                       s_Selector = MapAt 0 \<rparr>]"
    by simp
  have tl: "d_Template_Labels (resolve_Deployment
                 (ex_heap(0 := (ex_heap 0)(''kubernetes.io/name'' \<mapsto> ''Metrics-server'',
                                           ''kubernetes.io/cluster-service'' \<mapsto> ''true'')))
                 (deployment ex_handler))
     = [''name'' \<mapsto> ''metrics-server'',
        ''kubernetes.io/name'' \<mapsto> ''Metrics-server'',
        ''kubernetes.io/cluster-service'' \<mapsto> ''true'']"
    by (simp add: resolve_Deployment_def deployment_def alloc ex_heap_def fun_eq_iff)
  from deployment_self_selection [OF built member] built tl show ?thesis by simp
qed


subsection \<open>One label map behind every object\<close>

text \<open>
  Claim C8. For an owned handler with an allocated label map at address \<open>a\<close>,
  \<^verbatim>\<open>Resources\<close> returns a Deployment whose metadata labels, selector and pod-template
  labels, and a Service whose labels and selector, are all the handler's own map
  reference. The store it leaves differs from the one it found in that map only, which
  has gained \<^verbatim>\<open>kubernetes.io/name = Metrics-server\<close> and
  \<^verbatim>\<open>kubernetes.io/cluster-service = true\<close>. Read through that store, the two entries are
  present in the Deployment's labels, selector and template labels and in the Service's
  labels and selector.
\<close>

theorem label_map_aliasing:
  assumes owned: "apiServiceCreatedByRainbond m = Inr True"
      and alloc: "labels m = MapAt a"
  shows "\<exists>d s h'.
           Resources m h = Inr ([DeploymentObj d, ServiceObj s], h') \<and>
           d_Labels d = labels m \<and>
           d_Selector d = Some \<lparr> ls_MatchLabels = labels m \<rparr> \<and>
           d_Template_Labels d = labels m \<and>
           s_Labels s = labels m \<and>
           s_Selector s = labels m \<and>
           h' = h(a := (h a)(''kubernetes.io/name'' \<mapsto> ''Metrics-server'',
                             ''kubernetes.io/cluster-service'' \<mapsto> ''true'')) \<and>
           deref h' (labels m) = (deref h (labels m))
                                   (''kubernetes.io/name'' \<mapsto> ''Metrics-server'',
                                    ''kubernetes.io/cluster-service'' \<mapsto> ''true'') \<and>
           has_service_keys (d_Labels (resolve_Deployment h' d)) \<and>
           (\<exists>sel. d_Selector (resolve_Deployment h' d) = Some \<lparr> ls_MatchLabels = sel \<rparr> \<and>
                  has_service_keys sel) \<and>
           has_service_keys (d_Template_Labels (resolve_Deployment h' d)) \<and>
           has_service_keys (s_Labels (resolve_Service h' s)) \<and>
           has_service_keys (s_Selector (resolve_Service h' s))"
  using Resources_owned [OF owned alloc, of h] alloc
  by (simp add: deployment_def resolve_Deployment_def resolve_Service_def has_service_keys_def)

text \<open>
  The hypotheses of C8 hold for the example handler: the two entries are absent from
  the Deployment's labels before the call and present in every label set after it.
\<close>

theorem label_map_aliasing_witness:
  "apiServiceCreatedByRainbond ex_handler = Inr True \<and>
   labels ex_handler = MapAt 0 \<and>
   \<not> has_service_keys (d_Labels (resolve_Deployment ex_heap (deployment ex_handler))) \<and>
   (\<exists>d s h'.
      Resources ex_handler ex_heap = Inr ([DeploymentObj d, ServiceObj s], h') \<and>
      d = deployment ex_handler \<and>
      has_service_keys (d_Labels (resolve_Deployment h' d)) \<and>
      (\<exists>sel. d_Selector (resolve_Deployment h' d) = Some \<lparr> ls_MatchLabels = sel \<rparr> \<and>
             has_service_keys sel) \<and>
      has_service_keys (d_Template_Labels (resolve_Deployment h' d)) \<and>
      has_service_keys (s_Labels (resolve_Service h' s)) \<and>
      has_service_keys (s_Selector (resolve_Service h' s)))"
proof -
  have owned: "apiServiceCreatedByRainbond ex_handler = Inr True"
    by (simp add: owned_nil ex_handler_def NewMetricsServer_def)
  have alloc: "labels ex_handler = MapAt 0"
    by (simp add: ex_handler_def NewMetricsServer_def)
  have before: "\<not> has_service_keys (d_Labels (resolve_Deployment ex_heap (deployment ex_handler)))"
    by (simp add: has_service_keys_def resolve_Deployment_def deployment_def alloc ex_heap_def)
  from label_map_aliasing [OF owned alloc, of ex_heap] Resources_owned [OF owned alloc, of ex_heap]
       owned alloc before
  show ?thesis by auto
qed

text \<open>In general: whenever an owned handler's \<^verbatim>\<open>Resources\<close> returns, the handler's map has
  been overwritten with the two entries.\<close>

lemma Resources_label_map_effect:
  assumes "apiServiceCreatedByRainbond m = Inr True" and "Resources m h = Inr (objs, h')"
  shows "deref h' (labels m) = (deref h (labels m))
                                 (''kubernetes.io/name'' \<mapsto> ''Metrics-server'',
                                  ''kubernetes.io/cluster-service'' \<mapsto> ''true'')"
proof -
  from Resources_Inr_cases [OF assms(2)] assms(1)
  obtain a where alloc: "labels m = MapAt a" by auto
  from Resources_owned [OF assms(1) alloc, of h] assms(2)
  have "h' = h(a := (h a)(''kubernetes.io/name'' \<mapsto> ''Metrics-server'',
                          ''kubernetes.io/cluster-service'' \<mapsto> ''true''))"
    by simp
  then show ?thesis
    by (simp only: alloc deref.simps fun_upd_same)
qed

subsection \<open>The handler's label map is written in place\<close>

text \<open>
  Claim C5 says that \<^verbatim>\<open>Resources\<close> leaves the handler's stored label map unchanged,
  copying it before adding entries. The code copies the reference only. On the example
  handler, whose map holds the one entry \<^verbatim>\<open>name = metrics-server\<close>, the call returns
  with three entries in that same map: the contents of \<^verbatim>\<open>m.labels\<close> after the call
  differ from the contents before it.
\<close>

theorem Resources_writes_label_map:
  "Resources ex_handler ex_heap
     = Inr ([DeploymentObj (deployment ex_handler),
             ServiceObj \<lparr> s_Name = MetricsServerName,
                          s_Namespace = ''platform'',
                          s_Labels = MapAt 0,
                          s_Ports = [\<lparr> sp_Port = 443, sp_TargetPort_IntVal = 4443 \<rparr>],
                          s_Selector = MapAt 0 \<rparr>],
            ex_heap(0 := [''name'' \<mapsto> ''metrics-server'',
                          ''kubernetes.io/name'' \<mapsto> ''Metrics-server'',
                          ''kubernetes.io/cluster-service'' \<mapsto> ''true''])) \<and>
   deref ex_heap (labels ex_handler) = [''name'' \<mapsto> ''metrics-server''] \<and>
   deref (ex_heap(0 := [''name'' \<mapsto> ''metrics-server'',
                        ''kubernetes.io/name'' \<mapsto> ''Metrics-server'',
                        ''kubernetes.io/cluster-service'' \<mapsto> ''true''])) (labels ex_handler)
     = [''name'' \<mapsto> ''metrics-server'',
        ''kubernetes.io/name'' \<mapsto> ''Metrics-server'',
        ''kubernetes.io/cluster-service'' \<mapsto> ''true''] \<and>
   deref (ex_heap(0 := [''name'' \<mapsto> ''metrics-server'',
                        ''kubernetes.io/name'' \<mapsto> ''Metrics-server'',
                        ''kubernetes.io/cluster-service'' \<mapsto> ''true''])) (labels ex_handler)
     \<noteq> deref ex_heap (labels ex_handler)"
proof -
  have owned: "apiServiceCreatedByRainbond ex_handler = Inr True"
    by (simp add: owned_nil ex_handler_def NewMetricsServer_def)
  have alloc: "labels ex_handler = MapAt 0"
    by (simp add: ex_handler_def NewMetricsServer_def)
  have ns: "cpt_Namespace (component ex_handler) = ''platform''"
    by (simp add: ex_handler_def NewMetricsServer_def ex_component_def)
  have at0: "ex_heap 0 = [''name'' \<mapsto> ''metrics-server'']"
    by (simp add: ex_heap_def)
  have differ: "[''name'' \<mapsto> ''metrics-server'',
                 ''kubernetes.io/name'' \<mapsto> ''Metrics-server'',
                 ''kubernetes.io/cluster-service'' \<mapsto> ''true'']
                \<noteq> [''name'' \<mapsto> ''metrics-server'']"
  proof
    assume "[''name'' \<mapsto> ''metrics-server'',
             ''kubernetes.io/name'' \<mapsto> ''Metrics-server'',
             ''kubernetes.io/cluster-service'' \<mapsto> ''true'']
            = [''name'' \<mapsto> ''metrics-server'']"
    then have "[''name'' \<mapsto> ''metrics-server'',
                ''kubernetes.io/name'' \<mapsto> ''Metrics-server'',
                ''kubernetes.io/cluster-service'' \<mapsto> ''true''] ''kubernetes.io/name''
               = [''name'' \<mapsto> ''metrics-server''] ''kubernetes.io/name''"
      by (rule arg_cong)
    then show False by simp
  qed
  have built: "Resources ex_handler ex_heap
     = Inr ([DeploymentObj (deployment ex_handler),
             ServiceObj \<lparr> s_Name = MetricsServerName,
                          s_Namespace = ''platform'',
                          s_Labels = MapAt 0,
                          s_Ports = [\<lparr> sp_Port = 443, sp_TargetPort_IntVal = 4443 \<rparr>],
                          s_Selector = MapAt 0 \<rparr>],
            ex_heap(0 := [''name'' \<mapsto> ''metrics-server'',
                          ''kubernetes.io/name'' \<mapsto> ''Metrics-server'',
                          ''kubernetes.io/cluster-service'' \<mapsto> ''true'']))"
    using Resources_owned [OF owned alloc, of ex_heap] by (simp only: ns at0)
  have before: "deref ex_heap (labels ex_handler) = [''name'' \<mapsto> ''metrics-server'']"
    by (simp only: alloc deref.simps at0)
  have after: "deref (ex_heap(0 := [''name'' \<mapsto> ''metrics-server'',
                        ''kubernetes.io/name'' \<mapsto> ''Metrics-server'',
                        ''kubernetes.io/cluster-service'' \<mapsto> ''true''])) (labels ex_handler)
     = [''name'' \<mapsto> ''metrics-server'',
        ''kubernetes.io/name'' \<mapsto> ''Metrics-server'',
        ''kubernetes.io/cluster-service'' \<mapsto> ''true'']"
    by (simp only: alloc deref.simps fun_upd_same)
  have changed: "deref (ex_heap(0 := [''name'' \<mapsto> ''metrics-server'',
                        ''kubernetes.io/name'' \<mapsto> ''Metrics-server'',
                        ''kubernetes.io/cluster-service'' \<mapsto> ''true''])) (labels ex_handler)
     \<noteq> deref ex_heap (labels ex_handler)"
    unfolding before after by (rule differ)
  from built before after changed show ?thesis by (intro conjI)
qed

text \<open>In general: the handler recognises the registration it built exactly when the
  cluster resource and the component share a namespace.\<close>

lemma own_registration_recognised_iff:
  "apiServiceCreatedByRainbond
     (m\<lparr>apiservice := Some ((apiserviceForMetricsServer m)\<lparr>as_ResourceVersion := v\<rparr>)\<rparr>)
   = Inr (cluster_Namespace (cluster m) = cpt_Namespace (component m))"
  by (simp add: apiServiceCreatedByRainbond_def apiserviceForMetricsServer_def)

subsection \<open>The handler's own registration\<close>

text \<open>
  Claim C3 says that a handler always recognises the singleton its own \<^verbatim>\<open>After\<close>
  created. \<^verbatim>\<open>apiserviceForMetricsServer\<close> writes the namespace of the cluster resource
  into the back-reference, and \<^verbatim>\<open>apiServiceCreatedByRainbond\<close> compares it with the
  namespace of the component. For the component in \<open>platform\<close> under a cluster resource
  in \<open>installer\<close>: \<^verbatim>\<open>After\<close> creates the registration on the empty control plane, the
  next \<^verbatim>\<open>Before\<close> reads it back, and the handler decides that it is not the owner and
  returns no objects.
\<close>

theorem own_registration_not_recognised:
  "cpt_Namespace (component ex_far_handler) = ''platform'' \<and>
   cluster_Namespace (cluster ex_far_handler) = ''installer'' \<and>
   After mem_client ex_far_handler (ex_empty_plane, [])
     = Inr (None, (ex_registered_plane ex_far_handler,
                   [CallGetAPIService ('''', metricsGroupAPI),
                    CallCreate (apiserviceForMetricsServer ex_far_handler)])) \<and>
   Before mem_client ex_far_handler (ex_registered_plane ex_far_handler, [])
     = (None,
        ex_far_handler\<lparr>apiservice :=
          Some ((apiserviceForMetricsServer ex_far_handler)\<lparr>as_ResourceVersion := ''1''\<rparr>)\<rparr>,
        (ex_registered_plane ex_far_handler, [CallGetAPIService ('''', metricsGroupAPI)])) \<and>
   apiServiceCreatedByRainbond
     (ex_far_handler\<lparr>apiservice :=
        Some ((apiserviceForMetricsServer ex_far_handler)\<lparr>as_ResourceVersion := ''1''\<rparr>)\<rparr>)
     = Inr False \<and>
   Resources
     (ex_far_handler\<lparr>apiservice :=
        Some ((apiserviceForMetricsServer ex_far_handler)\<lparr>as_ResourceVersion := ''1''\<rparr>)\<rparr>)
     ex_heap
     = Inr ([], ex_heap)"
proof -
  have owned: "apiServiceCreatedByRainbond ex_far_handler = Inr True"
    by (simp add: owned_nil ex_far_handler_def NewMetricsServer_def)
  have cns: "cpt_Namespace (component ex_far_handler) = ''platform''"
    by (simp add: ex_far_handler_def NewMetricsServer_def ex_component_def)
  have lns: "cluster_Namespace (cluster ex_far_handler) = ''installer''"
    by (simp add: ex_far_handler_def NewMetricsServer_def ex_far_cluster_def)
  have name: "as_Name (apiserviceForMetricsServer ex_far_handler) = metricsGroupAPI"
    by (simp add: apiserviceForMetricsServer_def)
  have get1: "client_Get_APIService mem_client ('''', metricsGroupAPI) ex_empty_plane
                = (Inl NotFound, ex_empty_plane)"
    by (simp add: mem_Get_APIService ex_empty_plane_def)
  have crt: "client_Create mem_client (apiserviceForMetricsServer ex_far_handler) ex_empty_plane
               = (None, ex_registered_plane ex_far_handler)"
  proof -
    have nofault: "mem_fault ex_empty_plane = None"
      by (simp add: ex_empty_plane_def)
    have free: "mem_apiservices ex_empty_plane (as_Name (apiserviceForMetricsServer ex_far_handler)) = None"
      by (simp add: ex_empty_plane_def)
    from mem_Create_fresh [OF nofault free] show ?thesis
      by (simp add: name ex_registered_plane_def) (simp add: ex_empty_plane_def)
  qed
  have get2: "client_Get_APIService mem_client ('''', metricsGroupAPI) (ex_registered_plane ex_far_handler)
                = (Inr ((apiserviceForMetricsServer ex_far_handler)\<lparr>as_ResourceVersion := ''1''\<rparr>),
                   ex_registered_plane ex_far_handler)"
    by (simp add: mem_Get_APIService ex_registered_plane_def ex_empty_plane_def)
  have foreign: "apiServiceCreatedByRainbond
     (ex_far_handler\<lparr>apiservice :=
        Some ((apiserviceForMetricsServer ex_far_handler)\<lparr>as_ResourceVersion := ''1''\<rparr>)\<rparr>)
     = Inr False"
    by (simp add: own_registration_recognised_iff cns lns)
  from After_owned_create [OF owned get1 crt, of "[]"] Before_found [OF get2, of ex_far_handler "[]"]
       foreign Resources_foreign [OF foreign, of ex_heap] cns lns
  show ?thesis by simp
qed

end
